theory Spec2Isabelle
  imports Main "HOL-Library.Sublist"
begin

section \<open>Python values as the validators see them\<close>

text \<open>
  The three files under \<^verbatim>\<open>downloads/code\<close> probe their arguments with
  \<^verbatim>\<open>hasattr\<close>, truth tests (\<^verbatim>\<open>not obj\<close>, \<^verbatim>\<open>assert name and categories\<close>),
  \<^verbatim>\<open>isinstance(name, str)\<close> and, in the third file, \<^verbatim>\<open>'name' in result\<close>.
  A value is modelled by what these four operations do on it (Python 3 semantics).
  Built-in values answer from the language's fixed tables. An instance of a user-defined
  class answers by running the class's own code (\<^verbatim>\<open>__bool__\<close>/\<^verbatim>\<open>__len__\<close>,
  \<^verbatim>\<open>__getattr__\<close>, \<^verbatim>\<open>__contains__\<close>, \<^verbatim>\<open>__eq__\<close>, a \<^verbatim>\<open>__class__\<close> property),
  which may raise, may change the state of the program, and may answer differently from
  one state to the next. The parameters of the Python functions are untyped, so every
  such value is a possible argument.
\<close>

datatype exn = AssertionError | AttributeError | TypeError | ValueError

text \<open>
  The state of the running program that user code reads and writes: the fields of every
  object, whatever else the code keeps. An object that is passed twice, or that sits in a
  list twice, is one object: its code runs on the one state.
\<close>

type_synonym world = nat

text \<open>
  Every operation returns its outcome (\<open>Inl\<close> an exception) together with the state
  it leaves.
\<close>

type_synonym ('a, 's) outcome = "(exn + 'a) \<times> 's"

text \<open>User code run implicitly by an operation.\<close>

type_synonym 'a usercode = "world \<Rightarrow> ('a, world) outcome"

text \<open>
  An instance of a user-defined class.
  \<^item> \<open>inst_methods\<close>: the names ordinary attribute lookup finds (what the class defines).
  \<^item> \<open>inst_getattr\<close>: what the class's \<^verbatim>\<open>__getattr__\<close> does for a name, which Python
    calls when ordinary lookup fails: it finds the attribute (\<open>Inr ()\<close>) or raises; a
    class without \<^verbatim>\<open>__getattr__\<close> raises AttributeError and leaves the state.
  \<^item> \<open>inst_truth\<close>: what a truth test does (\<^verbatim>\<open>__bool__\<close>, else \<^verbatim>\<open>__len__\<close>; a class
    with neither answers True and leaves the state).
  \<^item> \<open>inst_contains\<close>: what \<^verbatim>\<open>key in obj\<close> does for a string key, through whichever
    of \<^verbatim>\<open>__contains__\<close>, \<^verbatim>\<open>__iter__\<close> and \<^verbatim>\<open>__getitem__\<close> the class has; TypeError
    when it has none.
  \<^item> \<open>inst_eq\<close>: what comparing the object with a string key does when a container
    holding the object is searched for the key: \<^verbatim>\<open>obj == key\<close> and the truth test of
    the answer.
  \<^item> \<open>inst_hash_as\<close>: the string keys whose hash equals the hash under which the
    object is stored in a set or dict (none, for an object hashed by identity).
  \<^item> \<open>inst_str\<close>: the class derives from \<^verbatim>\<open>str\<close>.
  \<^item> \<open>inst_class\<close>: what reading \<^verbatim>\<open>obj.__class__\<close> does when \<^verbatim>\<open>isinstance\<close>
    falls back on it (the class does not derive from \<^verbatim>\<open>str\<close>): whether the class
    it reports derives from \<^verbatim>\<open>str\<close>, or the exception it raises.
\<close>

record pyobject =
  inst_methods :: "string list"
  inst_getattr :: "string \<Rightarrow> unit usercode"
  inst_truth :: "bool usercode"
  inst_contains :: "string \<Rightarrow> bool usercode"
  inst_eq :: "string \<Rightarrow> bool usercode"
  inst_hash_as :: "string list"
  inst_str :: bool
  inst_class :: "bool usercode"

text \<open>
  A generator runs its own body when it is searched: it carries what \<^verbatim>\<open>key in gen\<close>
  does. A set and a dict are given by their entries as a search meets them: in the order
  in which the hash table probes them, an entry that is probed twice listed twice. The
  code inspects nothing else of a container than whether it is empty and what it holds.
  Two objects that keep state of their own differ in the part of the state their code
  uses. Floating-point numbers are left out.
\<close>

datatype pyval =
    PyNone
  | PyBool bool
  | PyInt int
  | PyStr string
  | PyList "pyval list"
  | PyTuple "pyval list"
  | PyDict "(pyval \<times> pyval) list"
  | PySet "pyval list"
  | PyGenerator "string \<Rightarrow> bool usercode"
  | PyInstance pyobject

text \<open>
  Truth value testing: the fixed rules of the built-in types (a generator is always
  true), the class's own code for an instance.
\<close>

fun truth :: "pyval \<Rightarrow> bool usercode" where
  "truth PyNone w = (Inr False, w)"
| "truth (PyBool b) w = (Inr b, w)"
| "truth (PyInt n) w = (Inr (n \<noteq> 0), w)"
| "truth (PyStr s) w = (Inr (s \<noteq> []), w)"
| "truth (PyList xs) w = (Inr (xs \<noteq> []), w)"
| "truth (PyTuple xs) w = (Inr (xs \<noteq> []), w)"
| "truth (PyDict kvs) w = (Inr (kvs \<noteq> []), w)"
| "truth (PySet xs) w = (Inr (xs \<noteq> []), w)"
| "truth (PyGenerator g) w = (Inr True, w)"
| "truth (PyInstance i) w = inst_truth i w"

text \<open>
  The names ordinary attribute lookup finds: for a built-in type the special methods of
  the container protocol that it defines (the code probes no other name), for an
  instance what its class defines.
\<close>

fun plain_attrs :: "pyval \<Rightarrow> string list" where
  "plain_attrs PyNone = []"
| "plain_attrs (PyBool b) = []"
| "plain_attrs (PyInt n) = []"
| "plain_attrs (PyStr s) =
     [''__getitem__'', ''__iter__'', ''__len__'', ''__contains__'']"
| "plain_attrs (PyList xs) =
     [''__getitem__'', ''__setitem__'', ''__delitem__'', ''__iter__'', ''__len__'',
      ''__contains__'']"
| "plain_attrs (PyTuple xs) =
     [''__getitem__'', ''__iter__'', ''__len__'', ''__contains__'']"
| "plain_attrs (PyDict kvs) =
     [''__getitem__'', ''__setitem__'', ''__delitem__'', ''__iter__'', ''__len__'',
      ''__contains__'']"
| "plain_attrs (PySet xs) = [''__iter__'', ''__len__'', ''__contains__'']"
| "plain_attrs (PyGenerator g) = [''__iter__'', ''__next__'']"
| "plain_attrs (PyInstance i) = inst_methods i"

text \<open>Attribute lookup; the attribute's value itself is never used by the code.\<close>

definition getattr :: "pyval \<Rightarrow> string \<Rightarrow> unit usercode" where
  "getattr obj attr w =
     (if attr \<in> set (plain_attrs obj) then (Inr (), w)
      else case obj of
        PyInstance i \<Rightarrow> inst_getattr i attr w
      | _ \<Rightarrow> (Inl AttributeError, w))"

text \<open>
  \<^verbatim>\<open>hasattr(obj, attr)\<close> calls \<^verbatim>\<open>getattr\<close> and answers False exactly when that
  raises AttributeError; any other exception propagates.
\<close>

definition hasattr :: "pyval \<Rightarrow> string \<Rightarrow> bool usercode" where
  "hasattr obj attr w =
     (case getattr obj attr w of
        (Inr _, w') \<Rightarrow> (Inr True, w')
      | (Inl AttributeError, w') \<Rightarrow> (Inr False, w')
      | (Inl e, w') \<Rightarrow> (Inl e, w'))"

text \<open>
  \<^verbatim>\<open>isinstance(obj, str)\<close>: decided by the type of the object when that derives from
  \<^verbatim>\<open>str\<close>; otherwise \<^verbatim>\<open>obj.__class__\<close> is read, where AttributeError counts as
  "no" and any other exception propagates. On a built-in value no user code runs.
\<close>

definition isinstance_str :: "pyval \<Rightarrow> bool usercode" where
  "isinstance_str obj w =
     (case obj of
        PyStr s \<Rightarrow> (Inr True, w)
      | PyInstance i \<Rightarrow>
          (if inst_str i then (Inr True, w)
           else case inst_class i w of
                  (Inl AttributeError, w') \<Rightarrow> (Inr False, w')
                | r \<Rightarrow> r)
      | _ \<Rightarrow> (Inr False, w))"





section \<open>Boolean operators and assert\<close>

text \<open>
  \<^verbatim>\<open>p and q\<close>, \<^verbatim>\<open>p or q\<close>, \<^verbatim>\<open>not p\<close> on operands that yield booleans, with Python's
  short-circuit evaluation, and the \<^verbatim>\<open>assert\<close> statement (assertions enabled). The
  state \<open>'s\<close> is whatever the operands run on.
\<close>

definition py_and ::
  "('s \<Rightarrow> (bool, 's) outcome) \<Rightarrow> ('s \<Rightarrow> (bool, 's) outcome) \<Rightarrow> 's \<Rightarrow> (bool, 's) outcome" where
  "py_and p q s = (case p s of (Inr True, s') \<Rightarrow> q s' | r \<Rightarrow> r)"

definition py_or ::
  "('s \<Rightarrow> (bool, 's) outcome) \<Rightarrow> ('s \<Rightarrow> (bool, 's) outcome) \<Rightarrow> 's \<Rightarrow> (bool, 's) outcome" where
  "py_or p q s = (case p s of (Inr False, s') \<Rightarrow> q s' | r \<Rightarrow> r)"

definition py_not :: "('s \<Rightarrow> (bool, 's) outcome) \<Rightarrow> 's \<Rightarrow> (bool, 's) outcome" where
  "py_not p s = (case p s of (Inr b, s') \<Rightarrow> (Inr (\<not> b), s') | r \<Rightarrow> r)"

definition py_assert :: "('s \<Rightarrow> (bool, 's) outcome) \<Rightarrow> 's \<Rightarrow> (unit, 's) outcome" where
  "py_assert p s =
     (case p s of
        (Inr True, s') \<Rightarrow> (Inr (), s')
      | (Inr False, s') \<Rightarrow> (Inl AssertionError, s')
      | (Inl e, s') \<Rightarrow> (Inl e, s'))"

text \<open>One statement after another: an exception ends the sequence.\<close>

definition seq ::
  "('s \<Rightarrow> (unit, 's) outcome) \<Rightarrow> ('s \<Rightarrow> ('a, 's) outcome) \<Rightarrow> 's \<Rightarrow> ('a, 's) outcome" where
  "seq p q s = (case p s of (Inr _, s') \<Rightarrow> q s' | (Inl e, s') \<Rightarrow> (Inl e, s'))"

section \<open>The validators (rtc\_typing\_example2.py and rtc\_typing\_example3.py, lines 1-8)\<close>

definition is_dict_like :: "pyval \<Rightarrow> bool usercode" where
  "is_dict_like obj = py_and (hasattr obj ''__getitem__'') (hasattr obj ''__setitem__'')"

definition is_iterable :: "pyval \<Rightarrow> bool usercode" where
  "is_iterable obj = hasattr obj ''__iter__''"

definition is_optional_dict :: "pyval \<Rightarrow> bool usercode" where
  "is_optional_dict obj = py_or (py_not (truth obj)) (is_dict_like obj)"

section \<open>NewUser\<close>

text \<open>
  The local variables of \<^verbatim>\<open>NewUser\<close>, the state of the program and the calls made so
  far to the two collaborators. \<^verbatim>\<open>User\<close> and \<^verbatim>\<open>save_to_database\<close> are defined
  nowhere in the repository: they are parameters, any code that returns a value or raises
  and may change the state.
\<close>

datatype 'u call = Call_User pyval pyval pyval | Call_save_to_database 'u

record 'u frame =
  name :: pyval
  categories :: pyval
  attributes :: pyval
  world :: world
  calls :: "'u call list"

text \<open>Function entry; \<^verbatim>\<open>attributes\<close> defaults to None when the caller omits it.\<close>

definition enter :: "pyval \<Rightarrow> pyval \<Rightarrow> pyval \<Rightarrow> world \<Rightarrow> 'u frame" where
  "enter n c a w = \<lparr>name = n, categories = c, attributes = a, world = w, calls = []\<rparr>"

text \<open>An operation on one local variable, run in the frame.\<close>

definition on_name :: "(pyval \<Rightarrow> 'a usercode) \<Rightarrow> 'u frame \<Rightarrow> ('a, 'u frame) outcome" where
  "on_name f s = (case f (name s) (world s) of (r, w') \<Rightarrow> (r, s\<lparr>world := w'\<rparr>))"

definition on_categories :: "(pyval \<Rightarrow> 'a usercode) \<Rightarrow> 'u frame \<Rightarrow> ('a, 'u frame) outcome" where
  "on_categories f s = (case f (categories s) (world s) of (r, w') \<Rightarrow> (r, s\<lparr>world := w'\<rparr>))"

definition on_attributes :: "(pyval \<Rightarrow> 'a usercode) \<Rightarrow> 'u frame \<Rightarrow> ('a, 'u frame) outcome" where
  "on_attributes f s = (case f (attributes s) (world s) of (r, w') \<Rightarrow> (r, s\<lparr>world := w'\<rparr>))"

text \<open>
  \<^verbatim>\<open>user_obj = User(name, categories, attributes)\<close> followed by
  \<^verbatim>\<open>save_to_database(user_obj)\<close>, each call recorded.
\<close>

definition create_and_save ::
  "(pyval \<Rightarrow> pyval \<Rightarrow> pyval \<Rightarrow> 'u usercode) \<Rightarrow> ('u \<Rightarrow> pyval usercode) \<Rightarrow> 'u frame
     \<Rightarrow> (pyval, 'u frame) outcome" where
  "create_and_save User save_to_database s =
     (let s1 = s\<lparr>calls := calls s @ [Call_User (name s) (categories s) (attributes s)]\<rparr>
      in case User (name s) (categories s) (attributes s) (world s) of
           (Inl e, w1) \<Rightarrow> (Inl e, s1\<lparr>world := w1\<rparr>)
         | (Inr user_obj, w1) \<Rightarrow>
             (case save_to_database user_obj w1 of
                (r, w2) \<Rightarrow>
                  (r, s1\<lparr>world := w2,
                         calls := calls s1 @ [Call_save_to_database user_obj]\<rparr>)))"

subsection \<open>rtc\_typing\_example.py\<close>

text \<open>
  Lines 10-13: the four assert statements, written with \<^verbatim>\<open>hasattr\<close> inline. In
  \<^verbatim>\<open>assert name and categories\<close> each operand is truth-tested once.
\<close>

definition asserts_example :: "'u frame \<Rightarrow> (unit, 'u frame) outcome" where
  "asserts_example =
     seq (py_assert (py_and (on_name truth) (on_categories truth)))
    (seq (py_assert (on_name isinstance_str))
    (seq (py_assert (on_categories (\<lambda>categories. hasattr categories ''__iter__'')))
         (py_assert (on_attributes
            (\<lambda>attributes.
               py_or (py_not (truth attributes))
                 (py_and (hasattr attributes ''__getitem__'')
                         (hasattr attributes ''__setitem__'')))))))"

definition NewUser_example ::
  "(pyval \<Rightarrow> pyval \<Rightarrow> pyval \<Rightarrow> 'u usercode) \<Rightarrow> ('u \<Rightarrow> pyval usercode)
     \<Rightarrow> pyval \<Rightarrow> pyval \<Rightarrow> pyval \<Rightarrow> world \<Rightarrow> (pyval, 'u frame) outcome" where
  "NewUser_example User save_to_database n c a w =
     seq asserts_example (create_and_save User save_to_database) (enter n c a w)"

subsection \<open>rtc\_typing\_example2.py\<close>

text \<open>Lines 19-22: the same gate through the named validators.\<close>

definition asserts_example2 :: "'u frame \<Rightarrow> (unit, 'u frame) outcome" where
  "asserts_example2 =
     seq (py_assert (py_and (on_name truth) (on_categories truth)))
    (seq (py_assert (on_name isinstance_str))
    (seq (py_assert (on_categories is_iterable))
         (py_assert (on_attributes is_optional_dict))))"

definition NewUser_example2 ::
  "(pyval \<Rightarrow> pyval \<Rightarrow> pyval \<Rightarrow> 'u usercode) \<Rightarrow> ('u \<Rightarrow> pyval usercode)
     \<Rightarrow> pyval \<Rightarrow> pyval \<Rightarrow> pyval \<Rightarrow> world \<Rightarrow> (pyval, 'u frame) outcome" where
  "NewUser_example2 User save_to_database n c a w =
     seq asserts_example2 (create_and_save User save_to_database) (enter n c a w)"

subsection \<open>rtc\_typing\_example3.py\<close>




section \<open>Notions of the specification\<close>

text \<open>A value exposes an operation when attribute lookup of its name succeeds.\<close>

definition exposes :: "pyval \<Rightarrow> string \<Rightarrow> world \<Rightarrow> bool" where
  "exposes v attr w = (fst (getattr v attr w) = Inr ())"

text \<open>
  The specification's "can produce a sequence of elements via iteration": Python's
  \<^verbatim>\<open>iter(v)\<close>, and so a \<^verbatim>\<open>for\<close> loop, works when the type of \<open>v\<close> defines
  \<^verbatim>\<open>__iter__\<close> or, failing that, \<^verbatim>\<open>__getitem__\<close> (the sequence protocol).
\<close>

definition spec_can_iterate :: "pyval \<Rightarrow> bool" where
  "spec_can_iterate v =
     (''__iter__'' \<in> set (plain_attrs v) \<or> ''__getitem__'' \<in> set (plain_attrs v))"


text \<open>
  A lookup is quiet when it leaves the state as it is and raises nothing but
  AttributeError; a truth test is quiet when it leaves the state and does not raise.
\<close>

definition lookup_quiet :: "pyval \<Rightarrow> string \<Rightarrow> world \<Rightarrow> bool" where
  "lookup_quiet v attr w =
     (snd (getattr v attr w) = w \<and>
      (fst (getattr v attr w) = Inr () \<or> fst (getattr v attr w) = Inl AttributeError))"

definition truth_quiet :: "pyval \<Rightarrow> world \<Rightarrow> bool" where
  "truth_quiet v w = (snd (truth v w) = w \<and> \<not> isl (fst (truth v w)))"














section \<open>Example inputs\<close>

text \<open>A class without special methods: every lookup fails quietly, every test is plain.\<close>

definition plain_object :: pyobject where
  "plain_object =
     \<lparr>inst_methods = [], inst_getattr = (\<lambda>attr w. (Inl AttributeError, w)),
      inst_truth = (\<lambda>w. (Inr True, w)), inst_contains = (\<lambda>k w. (Inl TypeError, w)),
      inst_eq = (\<lambda>k w. (Inr False, w)), inst_hash_as = [], inst_str = False,
      inst_class = (\<lambda>w. (Inr False, w))\<rparr>"

text \<open>
  An object in the manner of a numeric array with several elements: it can be indexed,
  assigned to and iterated, and its truth test raises ValueError (the truth value of
  such an array is ambiguous). Compared with a string it answers with an array, whose
  truth test raises in the same way.
\<close>

definition ambiguous_array :: pyval where
  "ambiguous_array =
     PyInstance (plain_object
       \<lparr>inst_methods :=
          [''__getitem__'', ''__setitem__'', ''__iter__'', ''__len__'', ''__contains__'',
           ''__bool__'', ''__eq__''],
        inst_truth := (\<lambda>w. (Inl ValueError, w)),
        inst_contains := (\<lambda>k w. (Inr False, w)),
        inst_eq := (\<lambda>k w. (Inl ValueError, w))\<rparr>)"





text \<open>
  An instance of a class that defines only \<^verbatim>\<open>__getitem__\<close> and \<^verbatim>\<open>__len__\<close>: a
  \<^verbatim>\<open>for\<close> loop iterates it through the sequence protocol.
\<close>

definition legacy_sequence :: pyval where
  "legacy_sequence =
     PyInstance (plain_object
       \<lparr>inst_methods := [''__getitem__'', ''__len__''],
        inst_contains := (\<lambda>k w. (Inr False, w))\<rparr>)"

text \<open>
  An object in the manner of a lazily loaded query result: its truth test fetches the
  rows and caches them in the object.
\<close>

definition lazy_rows :: pyval where
  "lazy_rows =
     PyInstance (plain_object
       \<lparr>inst_methods := [''__getitem__'', ''__iter__'', ''__len__'', ''__bool__''],
        inst_truth := (\<lambda>w. (Inr True, Suc w)),
        inst_contains := (\<lambda>k w. (Inr False, w))\<rparr>)"




text \<open>An object whose \<^verbatim>\<open>__getattr__\<close> raises ValueError for every name.\<close>

definition raising_getattr :: pyval where
  "raising_getattr =
     PyInstance (plain_object \<lparr>inst_getattr := (\<lambda>attr w. (Inl ValueError, w))\<rparr>)"

text \<open>
  An object whose \<^verbatim>\<open>__getattr__\<close> counts its calls in a field of the object and then
  raises AttributeError.
\<close>

definition counting_getattr :: pyval where
  "counting_getattr =
     PyInstance (plain_object \<lparr>inst_getattr := (\<lambda>attr w. (Inl AttributeError, Suc w))\<rparr>)"

text \<open>The arguments of the specification's end-to-end example.\<close>

definition alice :: pyval where
  "alice = PyStr ''alice''"

definition admin_user :: pyval where
  "admin_user = PyList [PyStr ''admin'', PyStr ''user'']"

definition age_30 :: pyval where
  "age_30 = PyDict [(PyStr ''age'', PyInt 30)]"

text \<open>
  Collaborators for the examples: a \<^verbatim>\<open>User\<close> that keeps its three arguments and a
  \<^verbatim>\<open>save_to_database\<close> that returns a given value.
\<close>

definition example_User :: "pyval \<Rightarrow> pyval \<Rightarrow> pyval \<Rightarrow> (pyval \<times> pyval \<times> pyval) usercode" where
  "example_User n c a w = (Inr (n, c, a), w)"

definition save_returning :: "pyval \<Rightarrow> 'u \<Rightarrow> pyval usercode" where
  "save_returning r user_obj w = (Inr r, w)"



section \<open>Auxiliary notions for the proofs\<close>



section \<open>Auxiliary facts about the validators\<close>

lemma getattr_builtin:
  "\<forall>i. v \<noteq> PyInstance i \<Longrightarrow>
   getattr v a w = (if a \<in> set (plain_attrs v) then Inr () else Inl AttributeError, w)"
  by (cases v) (simp_all add: getattr_def)

lemma hasattr_builtin:
  "\<forall>i. v \<noteq> PyInstance i \<Longrightarrow> hasattr v a w = (Inr (a \<in> set (plain_attrs v)), w)"
  by (simp add: hasattr_def getattr_builtin)

lemma is_dict_like_builtin:
  "\<forall>i. v \<noteq> PyInstance i \<Longrightarrow>
   is_dict_like v w =
     (Inr (''__getitem__'' \<in> set (plain_attrs v) \<and> ''__setitem__'' \<in> set (plain_attrs v)), w)"
  by (simp add: is_dict_like_def py_and_def hasattr_builtin split: bool.splits)

lemma is_iterable_builtin:
  "\<forall>i. v \<noteq> PyInstance i \<Longrightarrow> is_iterable v w = (Inr (''__iter__'' \<in> set (plain_attrs v)), w)"
  by (simp add: is_iterable_def hasattr_builtin)

lemma is_optional_dict_builtin:
  "\<forall>i. v \<noteq> PyInstance i \<Longrightarrow>
   is_optional_dict v w =
     (Inr (fst (truth v w) = Inr False \<or>
           (''__getitem__'' \<in> set (plain_attrs v) \<and> ''__setitem__'' \<in> set (plain_attrs v))), w)"
  by (cases v)
     (auto simp add: is_optional_dict_def py_or_def py_not_def is_dict_like_builtin
        split: bool.splits)

lemma fst_hasattr:
  "fst (hasattr v a w) =
     (case fst (getattr v a w) of Inr _ \<Rightarrow> Inr True | Inl AttributeError \<Rightarrow> Inr False
      | Inl e \<Rightarrow> Inl e)"
  by (auto simp: hasattr_def split: prod.splits sum.splits exn.splits)

lemma is_dict_like_unfold:
  "is_dict_like v w =
     (case hasattr v ''__getitem__'' w of
        (Inr True, w') \<Rightarrow> hasattr v ''__setitem__'' w'
      | r \<Rightarrow> r)"
  by (simp add: is_dict_like_def py_and_def)

lemma is_optional_dict_unfold:
  "is_optional_dict v w =
     (case truth v w of
        (Inr True, w') \<Rightarrow> is_dict_like v w'
      | (Inr False, w') \<Rightarrow> (Inr True, w')
      | (Inl e, w') \<Rightarrow> (Inl e, w'))"
  by (simp add: is_optional_dict_def py_or_def py_not_def split: prod.splits sum.splits bool.splits)

lemma lookup_quiet_hasattr:
  "lookup_quiet v a w \<Longrightarrow> hasattr v a w = (Inr (exposes v a w), w)"
  by (cases "getattr v a w")
     (auto simp add: lookup_quiet_def hasattr_def exposes_def)

lemma truth_quiet_cases:
  "truth_quiet v w \<Longrightarrow> (\<And>b. truth v w = (Inr b, w) \<Longrightarrow> P) \<Longrightarrow> P"
  by (cases "truth v w"; cases "fst (truth v w)") (auto simp add: truth_quiet_def)

lemma is_dict_like_quiet:
  assumes "lookup_quiet v ''__getitem__'' w"
    and "exposes v ''__getitem__'' w \<longrightarrow> lookup_quiet v ''__setitem__'' w"
  shows "\<exists>b. is_dict_like v w = (Inr b, w)"
  using assms
  by (cases "exposes v ''__getitem__'' w")
     (auto simp add: is_dict_like_unfold lookup_quiet_hasattr)

lemma is_optional_dict_quiet:
  assumes t: "truth_quiet v w"
    and d: "fst (truth v w) = Inr True \<longrightarrow>
       lookup_quiet v ''__getitem__'' w \<and>
       (exposes v ''__getitem__'' w \<longrightarrow> lookup_quiet v ''__setitem__'' w)"
  shows "\<exists>b. is_optional_dict v w = (Inr b, w)"
proof (rule truth_quiet_cases [OF t])
  fix b assume b: "truth v w = (Inr b, w)"
  show ?thesis
  proof (cases b)
    case True
    with b d is_dict_like_quiet [of v w] show ?thesis
      by (auto simp add: is_optional_dict_unfold)
  next
    case False
    with b show ?thesis by (auto simp add: is_optional_dict_unfold)
  qed
qed

section \<open>The claims about the validators\<close>







text \<open>
  C3, as stated, fails: on the non-empty list \<^verbatim>\<open>[1]\<close> the result is True, since a
  list has both \<^verbatim>\<open>__getitem__\<close> and \<^verbatim>\<open>__setitem__\<close>.
\<close>
theorem is_optional_dict_list_counterexample:
  "fst (is_optional_dict (PyList [PyInt 1]) 0) = Inr True
   \<and> fst (is_optional_dict (PyList [PyInt 1]) 0) \<noteq> Inr False"
  by (simp add: is_optional_dict_builtin)

text \<open>
  C3, amended. For every non-empty list \<^verbatim>\<open>is_optional_dict\<close> returns True; for every
  non-empty tuple and every non-empty set, which lack \<^verbatim>\<open>__setitem__\<close>, it returns
  False.
\<close>
theorem is_optional_dict_nonempty_sequences:
  "xs \<noteq> [] \<Longrightarrow>
     is_optional_dict (PyList xs) w = (Inr True, w)
     \<and> is_optional_dict (PyTuple xs) w = (Inr False, w)
     \<and> is_optional_dict (PySet xs) w = (Inr False, w)"
  by (simp add: is_optional_dict_builtin)

text \<open>
  C3, amended, at the one-element list, tuple and set.
\<close>
theorem is_optional_dict_nonempty_sequences_witness:
  "[PyInt 1] \<noteq> []
   \<and> is_optional_dict (PyList [PyInt 1]) 0 = (Inr True, 0)
   \<and> is_optional_dict (PyTuple [PyInt 1]) 0 = (Inr False, 0)
   \<and> is_optional_dict (PySet [PyInt 1]) 0 = (Inr False, 0)"
  using is_optional_dict_nonempty_sequences [of "[PyInt 1]" 0] by simp

text \<open>
  C4, as stated, fails: an object whose class defines only \<^verbatim>\<open>__getitem__\<close> can be
  iterated, and \<^verbatim>\<open>is_iterable\<close> returns False on it.
\<close>
theorem is_iterable_sequence_protocol_counterexample:
  "\<not> ((fst (is_iterable legacy_sequence 0) = Inr True) = spec_can_iterate legacy_sequence)"
  by (simp add: is_iterable_def hasattr_def getattr_def spec_can_iterate_def legacy_sequence_def
      plain_object_def)

text \<open>
  C4, amended. For every value, \<^verbatim>\<open>is_iterable\<close> returns True exactly when the value
  exposes \<^verbatim>\<open>__iter__\<close>; for every value of a built-in type that is exactly when the
  value can be iterated. It returns True for a list, a tuple, a set and a generator, and
  False for an integer.
\<close>
theorem is_iterable_iff_exposes_iter:
  "(fst (is_iterable v w) = Inr True) = exposes v ''__iter__'' w
   \<and> ((\<forall>i. v \<noteq> PyInstance i) \<longrightarrow> (fst (is_iterable v w) = Inr True) = spec_can_iterate v)
   \<and> is_iterable (PyList xs) w = (Inr True, w)
   \<and> is_iterable (PyTuple xs) w = (Inr True, w)
   \<and> is_iterable (PySet xs) w = (Inr True, w)
   \<and> is_iterable (PyGenerator g) w = (Inr True, w)
   \<and> is_iterable (PyInt n) w = (Inr False, w)"
proof -
  have "(fst (is_iterable v w) = Inr True) = exposes v ''__iter__'' w"
    by (simp add: is_iterable_def fst_hasattr exposes_def
        split: sum.splits exn.splits)
  moreover have "(\<forall>i. v \<noteq> PyInstance i) \<longrightarrow> (fst (is_iterable v w) = Inr True) = spec_can_iterate v"
    by (cases v) (simp_all add: is_iterable_builtin spec_can_iterate_def)
  moreover have "is_iterable (PyList xs) w = (Inr True, w)"
    by (simp add: is_iterable_builtin)
  moreover have "is_iterable (PyTuple xs) w = (Inr True, w)"
    by (simp add: is_iterable_builtin)
  moreover have "is_iterable (PySet xs) w = (Inr True, w)"
    by (simp add: is_iterable_builtin)
  moreover have "is_iterable (PyGenerator g) w = (Inr True, w)"
    by (simp add: is_iterable_builtin)
  moreover have "is_iterable (PyInt n) w = (Inr False, w)"
    by (simp add: is_iterable_builtin)
  ultimately show ?thesis by simp
qed

text \<open>
  C4, amended, at a string.
\<close>
theorem is_iterable_iff_exposes_iter_witness:
  "(\<forall>i. PyStr ''abc'' \<noteq> PyInstance i) \<and> spec_can_iterate (PyStr ''abc'')
   \<and> fst (is_iterable (PyStr ''abc'') 0) = Inr True
   \<and> exposes (PyStr ''abc'') ''__iter__'' 0"
  using is_iterable_iff_exposes_iter [of "PyStr ''abc''" 0]
  by (simp add: spec_can_iterate_def is_iterable_builtin exposes_def getattr_def)

text \<open>
  C5, as stated, fails for each validator. \<^verbatim>\<open>is_dict_like\<close> and \<^verbatim>\<open>is_iterable\<close> raise
  ValueError on an object whose \<^verbatim>\<open>__getattr__\<close> raises it, and \<^verbatim>\<open>is_optional_dict\<close> raises
  ValueError on the array-like object. \<^verbatim>\<open>is_dict_like\<close> and \<^verbatim>\<open>is_iterable\<close> change the
  state of the program on an object whose \<^verbatim>\<open>__getattr__\<close> counts its calls, and
  \<^verbatim>\<open>is_optional_dict\<close> changes it on the lazily loaded object.
\<close>
theorem validators_raise_or_mutate_counterexample:
  "fst (is_dict_like raising_getattr 0) = Inl ValueError
   \<and> fst (is_iterable raising_getattr 0) = Inl ValueError
   \<and> fst (is_optional_dict ambiguous_array 0) = Inl ValueError
   \<and> snd (is_dict_like counting_getattr 0) \<noteq> 0
   \<and> snd (is_iterable counting_getattr 0) \<noteq> 0
   \<and> snd (is_optional_dict lazy_rows 0) \<noteq> 0"
  by (simp add: is_optional_dict_unfold is_dict_like_unfold is_iterable_def hasattr_def
      getattr_def raising_getattr_def counting_getattr_def ambiguous_array_def lazy_rows_def
      plain_object_def)

text \<open>
  C5, amended. Each validator returns a boolean, without raising and leaving the state
  as it is, in the following cases, each naming only what that validator runs.
  \<^verbatim>\<open>is_dict_like\<close>: the lookup of \<^verbatim>\<open>__getitem__\<close> is quiet and, when it succeeds, so is the
  lookup of \<^verbatim>\<open>__setitem__\<close>. \<^verbatim>\<open>is_iterable\<close>: exactly when the lookup of \<^verbatim>\<open>__iter__\<close> is quiet.
  \<^verbatim>\<open>is_optional_dict\<close>: the truth test is quiet and, when it answers True, the two lookups
  are as for \<^verbatim>\<open>is_dict_like\<close>. On a value of a built-in type all three validators do so
  without condition. Termination is by construction: the validators are total
  functions.
\<close>
theorem validators_total_where_user_code_is_quiet:
  "(lookup_quiet v ''__getitem__'' w \<and>
      (exposes v ''__getitem__'' w \<longrightarrow> lookup_quiet v ''__setitem__'' w) \<longrightarrow>
      (\<exists>b. is_dict_like v w = (Inr b, w)))
   \<and> (\<exists>b. is_iterable v w = (Inr b, w)) = lookup_quiet v ''__iter__'' w
   \<and> (truth_quiet v w \<and>
      (fst (truth v w) = Inr True \<longrightarrow>
         lookup_quiet v ''__getitem__'' w \<and>
         (exposes v ''__getitem__'' w \<longrightarrow> lookup_quiet v ''__setitem__'' w)) \<longrightarrow>
      (\<exists>b. is_optional_dict v w = (Inr b, w)))
   \<and> ((\<forall>i. v \<noteq> PyInstance i) \<longrightarrow>
        (\<exists>b. is_dict_like v w = (Inr b, w)) \<and> (\<exists>b. is_iterable v w = (Inr b, w))
        \<and> (\<exists>b. is_optional_dict v w = (Inr b, w)))"
proof -
  have 1: "lookup_quiet v ''__getitem__'' w \<and>
      (exposes v ''__getitem__'' w \<longrightarrow> lookup_quiet v ''__setitem__'' w) \<longrightarrow>
      (\<exists>b. is_dict_like v w = (Inr b, w))"
    using is_dict_like_quiet [of v w] by blast
  have 2: "(\<exists>b. is_iterable v w = (Inr b, w)) = lookup_quiet v ''__iter__'' w"
    by (cases "getattr v ''__iter__'' w")
       (auto simp add: is_iterable_def hasattr_def lookup_quiet_def
          split: sum.splits exn.splits)
  have 3: "truth_quiet v w \<and>
      (fst (truth v w) = Inr True \<longrightarrow>
         lookup_quiet v ''__getitem__'' w \<and>
         (exposes v ''__getitem__'' w \<longrightarrow> lookup_quiet v ''__setitem__'' w)) \<longrightarrow>
      (\<exists>b. is_optional_dict v w = (Inr b, w))"
    using is_optional_dict_quiet [of v w] by blast
  have 4: "(\<forall>i. v \<noteq> PyInstance i) \<longrightarrow>
        (\<exists>b. is_dict_like v w = (Inr b, w)) \<and> (\<exists>b. is_iterable v w = (Inr b, w))
        \<and> (\<exists>b. is_optional_dict v w = (Inr b, w))"
    by (simp add: is_dict_like_builtin is_iterable_builtin is_optional_dict_builtin)
  from 1 2 3 4 show ?thesis by blast
qed

text \<open>
  C5, amended, at a dict, at the array-like object (\<^verbatim>\<open>is_dict_like\<close>), at the lazily
  loaded object (\<^verbatim>\<open>is_iterable\<close>) and at an instance of a class with only
  \<^verbatim>\<open>__getitem__\<close> and \<^verbatim>\<open>__len__\<close> (\<^verbatim>\<open>is_optional_dict\<close>).
\<close>
theorem validators_total_where_user_code_is_quiet_witness:
  "(\<forall>i. age_30 \<noteq> PyInstance i)
   \<and> is_dict_like age_30 0 = (Inr True, 0) \<and> is_iterable age_30 0 = (Inr True, 0)
   \<and> is_optional_dict age_30 0 = (Inr True, 0)
   \<and> lookup_quiet ambiguous_array ''__getitem__'' 0 \<and> exposes ambiguous_array ''__getitem__'' 0
   \<and> lookup_quiet ambiguous_array ''__setitem__'' 0
   \<and> is_dict_like ambiguous_array 0 = (Inr True, 0)
   \<and> lookup_quiet lazy_rows ''__iter__'' 0 \<and> is_iterable lazy_rows 0 = (Inr True, 0)
   \<and> truth_quiet legacy_sequence 0 \<and> fst (truth legacy_sequence 0) = Inr True
   \<and> lookup_quiet legacy_sequence ''__getitem__'' 0 \<and> exposes legacy_sequence ''__getitem__'' 0
   \<and> lookup_quiet legacy_sequence ''__setitem__'' 0
   \<and> is_optional_dict legacy_sequence 0 = (Inr False, 0)"
  using validators_total_where_user_code_is_quiet [of age_30 0]
    validators_total_where_user_code_is_quiet [of ambiguous_array 0]
    validators_total_where_user_code_is_quiet [of lazy_rows 0]
    validators_total_where_user_code_is_quiet [of legacy_sequence 0]
  by (simp add: age_30_def ambiguous_array_def lazy_rows_def legacy_sequence_def
      plain_object_def lookup_quiet_def truth_quiet_def exposes_def
      is_optional_dict_unfold is_dict_like_unfold is_iterable_def hasattr_def getattr_def)




section \<open>Auxiliary facts about the assert blocks\<close>














lemma is_iterable_eq: "is_iterable = (\<lambda>categories. hasattr categories ''__iter__'')"
  by (rule ext) (simp add: is_iterable_def)

lemma is_optional_dict_eq:
  "is_optional_dict =
     (\<lambda>attributes.
        py_or (py_not (truth attributes))
          (py_and (hasattr attributes ''__getitem__'') (hasattr attributes ''__setitem__'')))"
  by (rule ext) (simp add: is_optional_dict_def is_dict_like_def)

lemma asserts_example_eq: "asserts_example = asserts_example2"
  by (simp add: asserts_example_def asserts_example2_def is_iterable_eq is_optional_dict_eq)





lemma asserts_alice:
  "asserts_example2 (enter alice admin_user age_30 w) = (Inr (), enter alice admin_user age_30 w)"
  by (simp add: asserts_example2_def seq_def py_assert_def py_and_def on_name_def
      on_categories_def on_attributes_def isinstance_str_def is_iterable_builtin
      is_optional_dict_builtin enter_def alice_def admin_user_def age_30_def)

lemma asserts_empty_name:
  "asserts_example2 (enter (PyStr []) c a w) = (Inl AssertionError, enter (PyStr []) c a w)"
  by (simp add: asserts_example2_def seq_def py_assert_def py_and_def on_name_def enter_def)






























section \<open>The claims about NewUser\<close>


text \<open>
  C6. With name "alice", categories ["admin", "user"] and attributes {"age": 30} every
  assert passes and \<^verbatim>\<open>NewUser\<close> goes on to construct and save the user, whatever the
  collaborators are. With the empty name, and any categories and attributes,
  \<^verbatim>\<open>NewUser\<close> raises AssertionError and has called neither \<^verbatim>\<open>User\<close> nor
  \<^verbatim>\<open>save_to_database\<close>.
\<close>
theorem end_to_end_gate:
  "asserts_example2 (enter alice admin_user age_30 w) = (Inr (), enter alice admin_user age_30 w)
   \<and> NewUser_example2 User save_to_database alice admin_user age_30 w =
       create_and_save User save_to_database (enter alice admin_user age_30 w)
   \<and> NewUser_example User save_to_database alice admin_user age_30 w =
       create_and_save User save_to_database (enter alice admin_user age_30 w)
   \<and> NewUser_example2 User save_to_database (PyStr []) c a w =
       (Inl AssertionError, enter (PyStr []) c a w)
   \<and> NewUser_example User save_to_database (PyStr []) c a w =
       (Inl AssertionError, enter (PyStr []) c a w)
   \<and> calls (snd (NewUser_example2 User save_to_database (PyStr []) c a w)) = []
   \<and> calls (snd (NewUser_example User save_to_database (PyStr []) c a w)) = []
   \<and> NewUser_example2 example_User (save_returning (PyBool True)) alice admin_user age_30 w =
       (Inr (PyBool True),
        \<lparr>name = alice, categories = admin_user, attributes = age_30, world = w,
         calls = [Call_User alice admin_user age_30,
                  Call_save_to_database (alice, admin_user, age_30)]\<rparr>)"
  by (simp add: NewUser_example_def NewUser_example2_def asserts_example_eq seq_def
      asserts_alice asserts_empty_name)
     (simp add: enter_def create_and_save_def example_User_def save_returning_def)







end
